theory Spec2Isabelle
  imports Complex_Main "HOL-Library.Sublist"
begin

section \<open>Data model\<close>

text \<open>
  Python values that travel as JSON (tool arguments, tool results, the values of the
  dictionaries the orchestrator builds). An object keeps its keys in insertion order, as a
  Python \<^verbatim>\<open>dict\<close> does; \<open>JNull\<close> is \<^verbatim>\<open>None\<close>.
\<close>

datatype json =
    JNull
  | JBool bool
  | JNum int
  | JStr string
  | JArr "json list"
  | JObj "(string \<times> json) list"

type_synonym dict = "(string \<times> json) list"

text \<open>
  Exceptions, by the classes the source distinguishes in its \<^verbatim>\<open>except\<close> clauses; each
  carries the text of \<^verbatim>\<open>str(e)\<close>.
\<close>

datatype exn =
    ImportError string
  | HttpError string
  | ValueError string
  | TypeError string
  | IndexError string
  | OtherError string

fun str_exn :: "exn \<Rightarrow> string" where
  "str_exn (ImportError m) = m"
| "str_exn (HttpError m) = m"
| "str_exn (ValueError m) = m"
| "str_exn (TypeError m) = m"
| "str_exn (IndexError m) = m"
| "str_exn (OtherError m) = m"

fun is_mapping :: "json \<Rightarrow> bool" where
  "is_mapping (JObj kvs) = True"
| "is_mapping v = False"

fun is_str :: "json \<Rightarrow> bool" where
  "is_str (JStr s) = True"
| "is_str v = False"

text \<open>\<^verbatim>\<open>sep.join(parts)\<close>.\<close>

fun join :: "string \<Rightarrow> string list \<Rightarrow> string" where
  "join sep [] = []"
| "join sep [p] = p"
| "join sep (p # q # ps) = p @ sep @ join sep (q # ps)"

text \<open>
  \<^verbatim>\<open>{**base, **extra}\<close>: the keys of \<open>extra\<close> are written into \<open>base\<close> one after the
  other; a key already present keeps its position and takes the new value, a new key goes
  to the end.
\<close>

fun dict_set :: "string \<Rightarrow> json \<Rightarrow> dict \<Rightarrow> dict" where
  "dict_set k v [] = [(k, v)]"
| "dict_set k v ((k', v') # d) = (if k' = k then (k, v) # d else (k', v') # dict_set k v d)"

fun dict_merge :: "dict \<Rightarrow> dict \<Rightarrow> dict" where
  "dict_merge base [] = base"
| "dict_merge base ((k, v) # extra) = dict_merge (dict_set k v base) extra"

section \<open>Tools: \<^verbatim>\<open>app/agents/tools/base.py\<close> and \<^verbatim>\<open>email_tool.py\<close>\<close>

text \<open>\<^verbatim>\<open>BaseTool.validate_params\<close>: a required parameter is missing when its key is absent
  or its value is \<^verbatim>\<open>None\<close>.\<close>

definition validate_params :: "string list \<Rightarrow> dict \<Rightarrow> bool \<times> string list" where
  "validate_params required provided =
     (let missing = filter (\<lambda>param. case map_of provided param of
                                        None \<Rightarrow> True
                                      | Some v \<Rightarrow> v = JNull) required
      in if missing \<noteq> [] then (False, missing) else (True, []))"

definition success_response :: "dict \<Rightarrow> dict" where
  "success_response result =
     [(''success'', JBool True), (''result'', JObj result), (''error'', JNull)]"

definition error_response :: "string \<Rightarrow> dict" where
  "error_response error =
     [(''success'', JBool False), (''result'', JNull), (''error'', JStr error)]"

text \<open>
  \<^verbatim>\<open>EmailTool.execute\<close>. Everything the \<^verbatim>\<open>try\<close> block does outside this process (the
  imports of the Google packages, the lazy construction of the Gmail service, the encoding
  of the MIME message and the API call) is the collaborator \<open>gmail_send\<close>: it returns the
  sent message as the API reports it, or the exception raised, and the new state of the
  world. The three \<^verbatim>\<open>except\<close> clauses are tried in the source's order.
\<close>

record 'w gmail_env =
  google_calendar_email :: string
  gmail_send :: "json \<Rightarrow> json \<Rightarrow> json \<Rightarrow> 'w \<Rightarrow> (exn + dict) \<times> 'w"

definition dict_get :: "dict \<Rightarrow> string \<Rightarrow> json \<Rightarrow> json" where
  "dict_get d k dflt = (case map_of d k of None \<Rightarrow> dflt | Some v \<Rightarrow> v)"

definition email_execute ::
  "'w gmail_env \<Rightarrow> json \<Rightarrow> json \<Rightarrow> json \<Rightarrow> 'w \<Rightarrow> dict \<times> 'w" where
  "email_execute env to subject body w =
     (case validate_params [''to'', ''subject'', ''body'']
             [(''to'', to), (''subject'', subject), (''body'', body)] of
        (is_valid, missing) \<Rightarrow>
          if \<not> is_valid then
            (error_response (''Missing required parameters: '' @ join '', '' missing), w)
          else
            (case gmail_send env to subject body w of
               (Inr sent_message, w') \<Rightarrow>
                 (success_response
                    [(''message_id'', dict_get sent_message ''id'' JNull),
                     (''thread_id'', dict_get sent_message ''threadId'' JNull),
                     (''to'', to),
                     (''subject'', subject),
                     (''from'', JStr (google_calendar_email env)),
                     (''labels'', dict_get sent_message ''labelIds'' (JArr []))], w')
             | (Inl (ImportError m), w') \<Rightarrow>
                 (error_response
                    (''Google API packages not installed. '' @
                     ''Run: pip install google-api-python-client google-auth. '' @
                     ''Error: '' @ m), w')
             | (Inl (HttpError m), w') \<Rightarrow>
                 (error_response (''Gmail API error: '' @ m), w')
             | (Inl e, w') \<Rightarrow>
                 (error_response (''Failed to send email: '' @ str_exn e), w')))"

text \<open>
  The mutual exclusion of \<^verbatim>\<open>result\<close> and \<^verbatim>\<open>error\<close> in a tool's response: with
  \<^verbatim>\<open>success\<close> true the result is a mapping and the error is \<^verbatim>\<open>None\<close>; with
  \<^verbatim>\<open>success\<close> false the error is a string and the result is \<^verbatim>\<open>None\<close>.
\<close>

definition outcome_exclusive :: "dict \<Rightarrow> bool" where
  "outcome_exclusive d =
     (case map_of d ''success'' of
        Some (JBool True) \<Rightarrow>
          (case map_of d ''result'' of Some r \<Rightarrow> is_mapping r | None \<Rightarrow> False) \<and>
          map_of d ''error'' = Some JNull
      | Some (JBool False) \<Rightarrow>
          (case map_of d ''error'' of Some e \<Rightarrow> is_str e | None \<Rightarrow> False) \<and>
          map_of d ''result'' = Some JNull
      | _ \<Rightarrow> False)"

lemma outcome_exclusive_success: "outcome_exclusive (success_response r)"
  by (simp add: outcome_exclusive_def success_response_def)

lemma outcome_exclusive_error: "outcome_exclusive (error_response e)"
  by (simp add: outcome_exclusive_def error_response_def)

section \<open>The orchestrator: \<^verbatim>\<open>app/agents/orchestrator.py\<close>\<close>

subsection \<open>Values exchanged with the collaborators\<close>

text \<open>
  Modelled from the spec: the type of a retrieved block. \<^verbatim>\<open>db.vector_search\<close> is not
  among the sources; the data model gives its rows as
  \<^verbatim>\<open>{chunk_id: string, text: string, source: string, similarity: float}\<close>. Every block
  therefore carries a \<^verbatim>\<open>chunk_id\<close> string, and the defaults of the source's
  \<^verbatim>\<open>result.get('chunk_id', '')\<close> and \<^verbatim>\<open>block.get('chunk_id', 'unknown')\<close> are never
  taken.
\<close>

record context_block =
  chunk_id :: string
  cb_text :: string
  cb_source :: string
  similarity :: real

text \<open>A tool call as the adapters hand it to the loop:
  \<^verbatim>\<open>{"id": ..., "function": {"name": ..., "arguments": ...}}\<close>, the arguments still a
  JSON text.\<close>

record function_call =
  fn_name :: string
  fn_arguments :: string

record tool_call =
  tc_id :: string
  tc_function :: function_call

text \<open>A tool call as it is written into an assistant message, with the \<^verbatim>\<open>type\<close> field.\<close>

record wire_tool_call =
  wt_id :: string
  wt_type :: string
  wt_function :: function_call

text \<open>A conversation message; a field that a message does not have is \<open>None\<close>, and so is
  a \<^verbatim>\<open>content\<close> of \<^verbatim>\<open>None\<close>.\<close>

record message =
  msg_role :: string
  msg_content :: "string option"
  msg_tool_calls :: "wire_tool_call list option"
  msg_tool_call_id :: "string option"

text \<open>What an adapter returns: \<^verbatim>\<open>{"content": ..., "tool_calls": ...}\<close>.\<close>

record llm_response =
  resp_content :: "string option"
  resp_tool_calls :: "tool_call list option"

text \<open>The objects of the two provider SDKs that the adapters read. A block of an Anthropic
  response is of type \<^verbatim>\<open>text\<close> (with its text), of type \<^verbatim>\<open>tool_use\<close> (with its id, name
  and input) or of another type.\<close>

record openai_tool_call =
  oa_id :: string
  oa_function_name :: string
  oa_function_arguments :: string

record openai_message =
  oa_content :: "string option"
  oa_tool_calls :: "openai_tool_call list option"

datatype content_block =
    TextBlock string
  | ToolUseBlock string string json
  | OtherBlock

text \<open>An entry of \<^verbatim>\<open>tool_calls_made\<close>.\<close>

record tool_invocation =
  inv_tool_name :: string
  inv_arguments :: json
  inv_call_id :: string

text \<open>The returned dictionary and its \<^verbatim>\<open>debug\<close> entry. \<open>dbg_error\<close> is \<open>None\<close> where the
  key \<^verbatim>\<open>error\<close> is absent. The wall-clock field \<^verbatim>\<open>latency_ms\<close> is left out.\<close>

record debug_info =
  dbg_rag_context_used :: bool
  dbg_rag_chunk_ids :: "string list"
  dbg_tools_called :: "string list"
  dbg_iterations :: int
  dbg_error :: "string option"

record agent_result =
  res_text :: string
  res_tool_calls :: "tool_invocation list"
  res_tool_results :: "dict list"
  res_citations :: "string list"
  res_debug :: debug_info

text \<open>
  The collaborators of one service instance. Each call that leaves the process takes the
  state of the world \<open>'w\<close> and returns its outcome (\<open>Inl\<close> the exception raised) with the
  new state, so that two calls with the same arguments may differ. \<open>'e\<close> is the type of
  an embedding vector. \<^verbatim>\<open>json.loads\<close> and \<^verbatim>\<open>json.dumps\<close> are taken as given functions;
  \<open>current_date\<close> and \<open>current_year\<close> are the two renderings of \<^verbatim>\<open>datetime.now()\<close>.
\<close>

record ('w, 'e) agent_env =
  provider :: string
  openai_create :: "message list \<Rightarrow> 'w \<Rightarrow> (exn + openai_message list) \<times> 'w"
  anthropic_create :: "string option \<Rightarrow> message list \<Rightarrow> 'w \<Rightarrow> (exn + content_block list) \<times> 'w"
  embed_query :: "string \<Rightarrow> 'w \<Rightarrow> (exn + 'e) \<times> 'w"
  vector_search :: "'e \<Rightarrow> int \<Rightarrow> 'w \<Rightarrow> (exn + context_block list) \<times> 'w"
  execute_tool :: "string \<Rightarrow> dict \<Rightarrow> 'w \<Rightarrow> (exn + dict) \<times> 'w"
  json_loads :: "string \<Rightarrow> exn + json"
  json_dumps :: "json \<Rightarrow> string"
  current_date :: string
  current_year :: string
  settings_google_calendar_email :: string

subsection \<open>\<^verbatim>\<open>_get_rag_context\<close>\<close>

text \<open>\<^verbatim>\<open>chunk_id.split('#')[0] if '#' in chunk_id else chunk_id\<close>; the first piece of the
  split is the text before the first \<^verbatim>\<open>#\<close>.\<close>

definition base_id_of :: "string \<Rightarrow> string" where
  "base_id_of cid =
     (if CHR ''#'' \<in> set cid then takeWhile (\<lambda>c. c \<noteq> CHR ''#'') cid else cid)"

text \<open>The \<^verbatim>\<open>for result in search_results\<close> loop, with its two accumulators.\<close>

fun dedup_loop ::
  "context_block list \<Rightarrow> string set \<Rightarrow> context_block list \<Rightarrow> context_block list" where
  "dedup_loop [] seen_prefixes context_blocks = context_blocks"
| "dedup_loop (result # rest) seen_prefixes context_blocks =
     (let base_id = base_id_of (chunk_id result);
          context_blocks' =
            (if base_id \<notin> seen_prefixes then context_blocks @ [result] else context_blocks);
          seen_prefixes' =
            (if base_id \<notin> seen_prefixes then insert base_id seen_prefixes else seen_prefixes)
      in if length context_blocks' \<ge> 4 then context_blocks'
         else dedup_loop rest seen_prefixes' context_blocks')"

definition get_rag_context ::
  "('w, 'e) agent_env \<Rightarrow> string \<Rightarrow> int \<Rightarrow> 'w \<Rightarrow> context_block list \<times> 'w" where
  "get_rag_context env query top_k w =
     (case embed_query env query w of
        (Inl e, w1) \<Rightarrow> ([], w1)
      | (Inr query_embedding, w1) \<Rightarrow>
          (case vector_search env query_embedding top_k w1 of
             (Inl e, w2) \<Rightarrow> ([], w2)
           | (Inr search_results, w2) \<Rightarrow> (dedup_loop search_results {} [], w2)))"

subsection \<open>\<^verbatim>\<open>_build_initial_messages\<close>\<close>

definition nl :: string where
  "nl = [CHR 0x0A]"

definition no_context_marker :: string where
  "no_context_marker = ''No relevant context found in knowledge base.''"

definition render_block :: "context_block \<Rightarrow> string" where
  "render_block block = ''['' @ chunk_id block @ ''] '' @ cb_text block"

definition context_str_of :: "context_block list \<Rightarrow> string" where
  "context_str_of rag_context =
     (let context_parts = map render_block rag_context
      in if context_parts \<noteq> [] then join (nl @ nl) context_parts else no_context_marker)"

text \<open>The lines of the system prompt before and after the context section.\<close>

definition prompt_head :: "('w, 'e) agent_env \<Rightarrow> string list" where
  "prompt_head env =
     [''You are an intelligent AI assistant with access to both a knowledge base and action tools.'',
      '''',
      ''## IMPORTANT: Current Date Information'',
      ''Today'' @ [CHR 0x27] @ ''s date is: '' @ current_date env,
      ''Current year is: '' @ current_year env,
      ''When scheduling events, ALWAYS use the current year ('' @ current_year env @ '') or future dates. Never use past dates.'',
      '''',
      ''## Your Capabilities:'',
      '''',
      ''1. **Knowledge Base (RAG)**: You have access to retrieved context from our database. Use it to answer questions about policies, procedures, scheduling rules, and other information.'',
      '''',
      ''2. **Tools**: You can take real actions:'',
      ''   - `create_calendar_event`: Schedule meetings on Google Calendar'',
      ''   - `send_email`: Send emails via Gmail'',
      '''',
      ''## Retrieved Context from Knowledge Base:'']"

definition prompt_tail :: "('w, 'e) agent_env \<Rightarrow> string list" where
  "prompt_tail env =
     ['''',
      ''## Instructions:'',
      '''',
      ''1. **For informational questions** (about policies, returns, shipping, scheduling rules, etc.):'',
      ''   - Answer using the retrieved context above'',
      ''   - Include citations in format [chunk_id] when referencing information'',
      ''   - If context doesn'' @ [CHR 0x27] @ ''t contain relevant info, say so'',
      '''',
      ''2. **For action requests** (schedule meeting, send email, etc.):'',
      ''   - Use the appropriate tool'',
      ''   - If RAG context contains relevant info (e.g., default meeting duration), USE IT'',
      ''   - If missing required info (date, time, email), ASK the user'',
      ''   - ALWAYS use the current year ('' @ current_year env @ '') for dates'',
      '''',
      ''3. **After executing a tool**:'',
      ''   - Confirm the action with relevant details'',
      ''   - Include any important information (event link, meeting time, etc.)'',
      '''',
      ''## Important Guidelines:'',
      ''- Always check if RAG context is relevant before using it'',
      ''- Include citations [chunk_id] when referencing knowledge base information'',
      ''- For scheduling: Check context for default durations (e.g., '' @ [CHR 0x22] @ ''standard consultation = 30 minutes'' @ [CHR 0x22] @ '')'',
      ''- Be concise, professional, and helpful'',
      ''- Corporate email for sending: '' @ settings_google_calendar_email env]"

definition system_prompt :: "('w, 'e) agent_env \<Rightarrow> string \<Rightarrow> string" where
  "system_prompt env context_str = join nl (prompt_head env @ context_str # prompt_tail env)"

definition plain_message :: "string \<Rightarrow> string \<Rightarrow> message" where
  "plain_message r c =
     \<lparr>msg_role = r, msg_content = Some c, msg_tool_calls = None, msg_tool_call_id = None\<rparr>"

text \<open>\<^verbatim>\<open>msg.get(key, default)\<close> on a message of the chat history, a \<^verbatim>\<open>Dict[str, str]\<close>.\<close>

definition str_get :: "(string \<times> string) list \<Rightarrow> string \<Rightarrow> string \<Rightarrow> string" where
  "str_get d k dflt = (case map_of d k of None \<Rightarrow> dflt | Some v \<Rightarrow> v)"

definition history_message :: "(string \<times> string) list \<Rightarrow> message" where
  "history_message msg = plain_message (str_get msg ''role'' ''user'') (str_get msg ''content'' '''')"

definition build_initial_messages ::
  "('w, 'e) agent_env \<Rightarrow> string \<Rightarrow> context_block list \<Rightarrow>
   (string \<times> string) list list option \<Rightarrow> message list" where
  "build_initial_messages env query rag_context chat_history =
     (let messages = [plain_message ''system'' (system_prompt env (context_str_of rag_context))];
          messages = (case chat_history of
                        None \<Rightarrow> messages
                      | Some hist \<Rightarrow> if hist \<noteq> [] then messages @ map history_message hist
                                     else messages)
      in messages @ [plain_message ''user'' query])"

subsection \<open>The provider adapters\<close>

definition from_openai_tool_call :: "openai_tool_call \<Rightarrow> tool_call" where
  "from_openai_tool_call tc =
     \<lparr>tc_id = oa_id tc,
      tc_function = \<lparr>fn_name = oa_function_name tc,
                      fn_arguments = oa_function_arguments tc\<rparr>\<rparr>"

text \<open>\<^verbatim>\<open>_call_openai\<close>; \<^verbatim>\<open>response.choices[0]\<close> raises on an empty list of choices.\<close>

definition call_openai ::
  "('w, 'e) agent_env \<Rightarrow> message list \<Rightarrow> 'w \<Rightarrow> (exn + llm_response) \<times> 'w" where
  "call_openai env messages w =
     (case openai_create env messages w of
        (Inl e, w') \<Rightarrow> (Inl e, w')
      | (Inr choices, w') \<Rightarrow>
          (case choices of
             [] \<Rightarrow> (Inl (IndexError ''list index out of range''), w')
           | message # _ \<Rightarrow>
               (Inr \<lparr>resp_content = oa_content message,
                     resp_tool_calls =
                       (case oa_tool_calls message of
                          Some (tc # tcs) \<Rightarrow> Some (map from_openai_tool_call (tc # tcs))
                        | _ \<Rightarrow> None)\<rparr>, w')))"

text \<open>\<^verbatim>\<open>_call_anthropic\<close>: the loop that takes the system message out of the list, the
  call, and the loop over the blocks of the response.\<close>

fun split_system ::
  "message list \<Rightarrow> string option \<Rightarrow> message list \<Rightarrow> string option \<times> message list" where
  "split_system [] system_content user_messages = (system_content, user_messages)"
| "split_system (msg # rest) system_content user_messages =
     (if msg_role msg = ''system'' then split_system rest (msg_content msg) user_messages
      else split_system rest system_content (user_messages @ [msg]))"

fun parse_blocks ::
  "(json \<Rightarrow> string) \<Rightarrow> content_block list \<Rightarrow> tool_call list \<Rightarrow> string \<Rightarrow>
   tool_call list \<times> string" where
  "parse_blocks dumps [] tool_calls content = (tool_calls, content)"
| "parse_blocks dumps (TextBlock t # rest) tool_calls content =
     parse_blocks dumps rest tool_calls t"
| "parse_blocks dumps (ToolUseBlock i n inp # rest) tool_calls content =
     parse_blocks dumps rest
       (tool_calls @ [\<lparr>tc_id = i, tc_function = \<lparr>fn_name = n, fn_arguments = dumps inp\<rparr>\<rparr>])
       content"
| "parse_blocks dumps (OtherBlock # rest) tool_calls content =
     parse_blocks dumps rest tool_calls content"

definition anthropic_response :: "(json \<Rightarrow> string) \<Rightarrow> content_block list \<Rightarrow> llm_response" where
  "anthropic_response dumps blocks =
     (case parse_blocks dumps blocks [] '''' of
        (tool_calls, content) \<Rightarrow>
          \<lparr>resp_content = Some content,
           resp_tool_calls = (if tool_calls \<noteq> [] then Some tool_calls else None)\<rparr>)"

definition call_anthropic ::
  "('w, 'e) agent_env \<Rightarrow> message list \<Rightarrow> 'w \<Rightarrow> (exn + llm_response) \<times> 'w" where
  "call_anthropic env messages w =
     (case split_system messages (Some '''') [] of
        (system_content, user_messages) \<Rightarrow>
          (case anthropic_create env system_content user_messages w of
             (Inl e, w') \<Rightarrow> (Inl e, w')
           | (Inr blocks, w') \<Rightarrow> (Inr (anthropic_response (json_dumps env) blocks), w')))"

definition call_llm_with_tools ::
  "('w, 'e) agent_env \<Rightarrow> message list \<Rightarrow> 'w \<Rightarrow> (exn + llm_response) \<times> 'w" where
  "call_llm_with_tools env messages w =
     (if provider env = ''openai'' then call_openai env messages w
      else if provider env = ''anthropic'' then call_anthropic env messages w
      else (Inl (ValueError (''Unsupported provider: '' @ provider env)), w))"

subsection \<open>\<^verbatim>\<open>_extract_citations\<close>\<close>

text \<open>
  \<^verbatim>\<open>re.findall(r'\[([^\]]+)\]', text)\<close>: the scan goes from left to right; at an opening
  bracket the pattern takes all the characters up to the next closing bracket, and matches
  when there is at least one such character and the closing bracket is there; the scan
  goes on after the closing bracket of a match, and at the next character otherwise.
\<close>

function find_citations :: "string \<Rightarrow> string list" where
  "find_citations [] = []"
| "find_citations (c # cs) =
     (if c = CHR ''['' then
        (let tok = takeWhile (\<lambda>x. x \<noteq> CHR '']'') cs;
             rest = dropWhile (\<lambda>x. x \<noteq> CHR '']'') cs
         in if tok \<noteq> [] \<and> rest \<noteq> [] then tok # find_citations (tl rest)
            else find_citations cs)
      else find_citations cs)"
  by pat_completeness auto
termination
proof (relation "measure length")
  fix c :: char and cs tok rest :: string
  assume "rest = dropWhile (\<lambda>x. x \<noteq> CHR '']'') cs"
  then have "length (tl rest) \<le> length cs"
    using length_dropWhile_le [of "\<lambda>x. x \<noteq> CHR '']''" cs] by simp
  then show "(tl rest, c # cs) \<in> measure length" by simp
qed simp_all

text \<open>The loop that removes duplicates, with its accumulator \<^verbatim>\<open>unique_citations\<close>.\<close>

fun unique_loop :: "string list \<Rightarrow> string list \<Rightarrow> string list" where
  "unique_loop [] unique_citations = unique_citations"
| "unique_loop (cite # rest) unique_citations =
     (if cite \<notin> set unique_citations then unique_loop rest (unique_citations @ [cite])
      else unique_loop rest unique_citations)"

definition extract_citations :: "string \<Rightarrow> context_block list \<Rightarrow> string list" where
  "extract_citations text_in context_blocks =
     (let found_citations = find_citations text_in;
          valid_chunk_ids = set (map chunk_id context_blocks);
          valid_citations = filter (\<lambda>cite. cite \<in> valid_chunk_ids) found_citations
      in unique_loop valid_citations [])"

subsection \<open>\<^verbatim>\<open>process_query\<close>\<close>

text \<open>
  The variables of one run that the loop changes. \<open>calling_entered\<close> is not a variable of
  the source: it counts the invocations of the provider adapter, one at each entry into
  the CALLING state.
\<close>

record loop_state =
  messages :: "message list"
  tool_calls_made :: "tool_invocation list"
  tool_results :: "dict list"
  iteration :: int
  calling_entered :: nat

fun py_type_name :: "json \<Rightarrow> string" where
  "py_type_name JNull = ''NoneType''"
| "py_type_name (JBool b) = ''bool''"
| "py_type_name (JNum n) = ''int''"
| "py_type_name (JStr s) = ''str''"
| "py_type_name (JArr xs) = ''list''"
| "py_type_name (JObj kvs) = ''dict''"

text \<open>
  The body of \<^verbatim>\<open>for tool_call in response['tool_calls']\<close>, one call after the other. The
  result is the exception that ended the loop, if any, with the variables as they were at
  that point. \<^verbatim>\<open>json.loads\<close> may raise before the invocation is recorded; the call
  \<^verbatim>\<open>execute_tool(tool_name, **tool_args)\<close> comes after it, and raises a \<^verbatim>\<open>TypeError\<close>
  by itself when the decoded arguments are not a mapping.
\<close>

fun exec_tool_calls ::
  "('w, 'e) agent_env \<Rightarrow> tool_call list \<Rightarrow> loop_state \<Rightarrow> 'w \<Rightarrow>
   exn option \<times> loop_state \<times> 'w" where
  "exec_tool_calls env [] st w = (None, st, w)"
| "exec_tool_calls env (tool_call # rest) st w =
     (let tool_name = fn_name (tc_function tool_call) in
      case json_loads env (fn_arguments (tc_function tool_call)) of
        Inl e \<Rightarrow> (Some e, st, w)
      | Inr tool_args \<Rightarrow>
          (let st1 = st\<lparr>tool_calls_made := tool_calls_made st @
                         [\<lparr>inv_tool_name = tool_name, inv_arguments = tool_args,
                           inv_call_id = tc_id tool_call\<rparr>]\<rparr> in
           case tool_args of
             JObj kwargs \<Rightarrow>
               (case execute_tool env tool_name kwargs w of
                  (Inl e, w') \<Rightarrow> (Some e, st1, w')
                | (Inr result, w') \<Rightarrow>
                    exec_tool_calls env rest
                      (st1\<lparr>tool_results := tool_results st1 @
                              [dict_merge [(''call_id'', JStr (tc_id tool_call)),
                                           (''tool_name'', JStr tool_name)] result],
                            messages := messages st1 @
                              [\<lparr>msg_role = ''assistant'', msg_content = None,
                                msg_tool_calls =
                                  Some [\<lparr>wt_id = tc_id tool_call, wt_type = ''function'',
                                         wt_function = tc_function tool_call\<rparr>],
                                msg_tool_call_id = None\<rparr>,
                               \<lparr>msg_role = ''tool'',
                                msg_content = Some (json_dumps env (JObj result)),
                                msg_tool_calls = None,
                                msg_tool_call_id = Some (tc_id tool_call)\<rparr>]\<rparr>) w')
           | _ \<Rightarrow>
               (Some (TypeError (''execute_tool() argument after ** must be a mapping, not '' @
                                 py_type_name tool_args)), st1, w)))"

lemma exec_tool_calls_iteration:
  "exec_tool_calls env tcs st w = (r, st', w') \<Longrightarrow> iteration st' = iteration st"
proof (induction tcs arbitrary: st w)
  case Nil
  then show ?case by simp
next
  case (Cons tc tcs)
  then show ?case
    by (auto simp: Let_def split: sum.splits json.splits prod.splits)
qed

text \<open>
  The \<^verbatim>\<open>while iteration < max_iterations\<close> loop. It returns the exception that left it
  (\<open>Inl\<close>) or the value of \<^verbatim>\<open>final_response\<close> after it (\<open>Inr\<close>), with the variables.
\<close>

function agent_loop ::
  "('w, 'e) agent_env \<Rightarrow> int \<Rightarrow> loop_state \<Rightarrow> 'w \<Rightarrow>
   (exn + string option) \<times> loop_state \<times> 'w" where
  "agent_loop env max_iterations st w =
     (if iteration st < max_iterations then
        (let st1 = st\<lparr>iteration := iteration st + 1,
                       calling_entered := Suc (calling_entered st)\<rparr> in
         case call_llm_with_tools env (messages st1) w of
           (Inl e, w1) \<Rightarrow> (Inl e, st1, w1)
         | (Inr response, w1) \<Rightarrow>
             (case resp_tool_calls response of
                Some (tc # tcs) \<Rightarrow>
                  (case exec_tool_calls env (tc # tcs) st1 w1 of
                     (Some e, st2, w2) \<Rightarrow> (Inl e, st2, w2)
                   | (None, st2, w2) \<Rightarrow> agent_loop env max_iterations st2 w2)
              | _ \<Rightarrow> (Inr (resp_content response), st1, w1)))
      else (Inr None, st, w))"
  by pat_completeness auto
termination
proof (relation "measure (\<lambda>(env, max_iterations, st, w). nat (max_iterations - iteration st))")
qed (auto simp del: exec_tool_calls.simps dest!: exec_tool_calls_iteration [OF sym])

declare agent_loop.simps [simp del]

text \<open>\<^verbatim>\<open>final_response or default\<close>: the default stands in for \<^verbatim>\<open>None\<close> and for the
  empty string.\<close>

definition or_else :: "string option \<Rightarrow> string \<Rightarrow> string" where
  "or_else final_response dflt =
     (case final_response of None \<Rightarrow> dflt | Some s \<Rightarrow> if s \<noteq> [] then s else dflt)"

text \<open>The variables as \<^verbatim>\<open>process_query\<close> sets them before its loop.\<close>

definition initial_state ::
  "('w, 'e) agent_env \<Rightarrow> string \<Rightarrow> context_block list \<Rightarrow>
   (string \<times> string) list list option \<Rightarrow> loop_state" where
  "initial_state env query rag_context chat_history =
     \<lparr>messages = build_initial_messages env query rag_context chat_history,
      tool_calls_made = [], tool_results = [], iteration = 0, calling_entered = 0\<rparr>"

text \<open>
  \<^verbatim>\<open>process_query\<close>, with the two \<^verbatim>\<open>return\<close> statements: the one after the loop and the
  one of the \<^verbatim>\<open>except\<close> clause. Beside the returned dictionary and the state of the world
  it gives the number of times the CALLING state was entered.
\<close>

definition process_query ::
  "('w, 'e) agent_env \<Rightarrow> string \<Rightarrow> (string \<times> string) list list option \<Rightarrow> string option \<Rightarrow>
   int \<Rightarrow> int \<Rightarrow> 'w \<Rightarrow> agent_result \<times> nat \<times> 'w" where
  "process_query env query chat_history user_id top_k max_iterations w =
     (case get_rag_context env query top_k w of
        (rag_context, w1) \<Rightarrow>
          (case agent_loop env max_iterations
                  (initial_state env query rag_context chat_history) w1 of
             (Inr final_response, st, w2) \<Rightarrow>
               (\<lparr>res_text = or_else final_response ''I processed your request.'',
                 res_tool_calls = tool_calls_made st,
                 res_tool_results = tool_results st,
                 res_citations = extract_citations (or_else final_response '''') rag_context,
                 res_debug =
                   \<lparr>dbg_rag_context_used = (length rag_context > 0),
                    dbg_rag_chunk_ids = map chunk_id rag_context,
                    dbg_tools_called = map inv_tool_name (tool_calls_made st),
                    dbg_iterations = iteration st,
                    dbg_error = None\<rparr>\<rparr>, calling_entered st, w2)
           | (Inl e, st, w2) \<Rightarrow>
               (\<lparr>res_text = ''I encountered an error processing your request: '' @ str_exn e,
                 res_tool_calls = tool_calls_made st,
                 res_tool_results = tool_results st,
                 res_citations = [],
                 res_debug =
                   \<lparr>dbg_rag_context_used = False,
                    dbg_rag_chunk_ids = [],
                    dbg_tools_called = map inv_tool_name (tool_calls_made st),
                    dbg_iterations = 0,
                    dbg_error = Some (str_exn e)\<rparr>\<rparr>, calling_entered st, w2)))"

section \<open>The properties in the specification's words\<close>

text \<open>The texts of the text-typed blocks of a provider response, in their order, and
  whether a block is action-typed.\<close>

fun block_texts :: "content_block list \<Rightarrow> string list" where
  "block_texts [] = []"
| "block_texts (TextBlock t # bs) = t # block_texts bs"
| "block_texts (b # bs) = block_texts bs"

fun is_tool_use :: "content_block \<Rightarrow> bool" where
  "is_tool_use (ToolUseBlock i n inp) = True"
| "is_tool_use b = False"

text \<open>
  The walk of the Context Assembler as the specification words it: a candidate whose base
  prefix was already accepted is skipped, any other candidate is accepted. \<open>seen\<close> holds
  the base prefixes accepted so far.
\<close>

fun accepted_candidates :: "context_block list \<Rightarrow> string set \<Rightarrow> context_block list" where
  "accepted_candidates [] seen = []"
| "accepted_candidates (c # cs) seen =
     (if base_id_of (chunk_id c) \<in> seen then accepted_candidates cs seen
      else c # accepted_candidates cs (insert (base_id_of (chunk_id c)) seen))"

text \<open>A list without its repetitions, each element at the place of its first occurrence.\<close>

fun first_occurrences :: "string list \<Rightarrow> string list" where
  "first_occurrences [] = []"
| "first_occurrences (x # xs) = x # first_occurrences (filter (\<lambda>y. y \<noteq> x) xs)"





text \<open>The retrieval fails: the embedding service raises, or the vector search does.\<close>

definition retrieval_raises :: "('w, 'e) agent_env \<Rightarrow> string \<Rightarrow> int \<Rightarrow> 'w \<Rightarrow> bool" where
  "retrieval_raises env query top_k w =
     (case embed_query env query w of
        (Inl e, w1) \<Rightarrow> True
      | (Inr query_embedding, w1) \<Rightarrow>
          (case vector_search env query_embedding top_k w1 of
             (Inl e, w2) \<Rightarrow> True
           | (Inr search_results, w2) \<Rightarrow> False))"

text \<open>What the loop of \<^verbatim>\<open>process_query\<close> returns in a run: the exception or the final
  response, the variables when the loop was left, and the state of the world.\<close>

definition loop_outcome ::
  "('w, 'e) agent_env \<Rightarrow> string \<Rightarrow> (string \<times> string) list list option \<Rightarrow> int \<Rightarrow> int \<Rightarrow> 'w \<Rightarrow>
   (exn + string option) \<times> loop_state \<times> 'w" where
  "loop_outcome env query chat_history top_k max_iterations w =
     (case get_rag_context env query top_k w of
        (rag_context, w1) \<Rightarrow>
          agent_loop env max_iterations (initial_state env query rag_context chat_history) w1)"


section \<open>Concrete runs\<close>

text \<open>
  Collaborators for concrete runs. The state of the world is the number of provider calls
  made so far; an embedding is a unit value. \<open>demo_loads\<close> decodes the two JSON texts the
  runs use as \<^verbatim>\<open>json.loads\<close> does and rejects the others; \<open>json_dumps\<close> is a stand-in, its
  text is only carried in the messages.
\<close>

definition demo_block :: "string \<Rightarrow> context_block" where
  "demo_block cid = \<lparr>chunk_id = cid, cb_text = ''Items can be returned within 30 days.'',
                     cb_source = ''policies'', similarity = 1\<rparr>"

definition demo_candidates :: "context_block list" where
  "demo_candidates =
     [demo_block ''returns#0'', demo_block ''returns#1'', demo_block ''shipping'',
      demo_block ''hours#2'', demo_block ''returns#2'', demo_block ''contact'',
      demo_block ''careers'']"

definition demo_loads :: "string \<Rightarrow> exn + json" where
  "demo_loads s =
     (if s = ''{}'' then Inr (JObj [])
      else if s = ''[]'' then Inr (JArr [])
      else Inl (ValueError ''Expecting value: line 1 column 1 (char 0)''))"

definition demo_tool_call :: "string \<Rightarrow> openai_tool_call" where
  "demo_tool_call args =
     \<lparr>oa_id = ''call_1'', oa_function_name = ''send_email'', oa_function_arguments = args\<rparr>"

text \<open>The provider answers in text, with a citation, and asks for no tool.\<close>

definition demo_env :: "(nat, unit) agent_env" where
  "demo_env =
     \<lparr>provider = ''openai'',
      openai_create = (\<lambda>msgs w.
        (Inr [\<lparr>oa_content = Some ''You can return items within 30 days. [returns#0]'',
               oa_tool_calls = None\<rparr>], Suc w)),
      anthropic_create = (\<lambda>system_content msgs w. (Inl (OtherError ''no client''), w)),
      embed_query = (\<lambda>query w. (Inr (), w)),
      vector_search = (\<lambda>query_embedding top_k w. (Inr demo_candidates, w)),
      execute_tool = (\<lambda>tool_name kwargs w.
        (Inr (success_response [(''message_id'', JStr ''m1'')]), w)),
      json_loads = demo_loads,
      json_dumps = (\<lambda>v. ''{}''),
      current_date = ''2026-01-15'',
      current_year = ''2026'',
      settings_google_calendar_email = ''team@example.com''\<rparr>"


text \<open>The provider asks for a tool with the arguments \<^verbatim>\<open>[]\<close>, a JSON text that is not an
  object.\<close>

definition list_args_env :: "(nat, unit) agent_env" where
  "list_args_env =
     demo_env\<lparr>openai_create := (\<lambda>msgs w.
       (Inr [\<lparr>oa_content = None, oa_tool_calls = Some [demo_tool_call ''[]'']\<rparr>], Suc w))\<rparr>"

text \<open>The first provider call asks for a tool, the second one raises.\<close>

definition second_call_fails_env :: "(nat, unit) agent_env" where
  "second_call_fails_env =
     demo_env\<lparr>openai_create := (\<lambda>msgs w.
       if w = 0
       then (Inr [\<lparr>oa_content = None, oa_tool_calls = Some [demo_tool_call ''{}'']\<rparr>], Suc w)
       else (Inl (OtherError ''Connection error.''), Suc w))\<rparr>"

text \<open>The embedding service raises.\<close>

definition no_retrieval_env :: "(nat, unit) agent_env" where
  "no_retrieval_env =
     demo_env\<lparr>embed_query := (\<lambda>query w. (Inl (OtherError ''Connection error.''), w))\<rparr>"

section \<open>Provider adapter, variant B: the blocks of an Anthropic response\<close>

lemma parse_blocks_content:
  "snd (parse_blocks dumps bs tcs c) =
     (if block_texts bs = [] then c else last (block_texts bs))"
proof (induction bs arbitrary: tcs c)
  case Nil
  show ?case by simp
next
  case (Cons b bs)
  show ?case
  proof (cases b)
    case (TextBlock t)
    with Cons show ?thesis by simp
  next
    case (ToolUseBlock i n inp)
    with Cons show ?thesis by simp
  next
    case OtherBlock
    with Cons show ?thesis by simp
  qed
qed

lemma parse_blocks_no_tool_use:
  "\<not> list_ex is_tool_use bs \<Longrightarrow> fst (parse_blocks dumps bs tcs c) = tcs"
proof (induction bs arbitrary: tcs c)
  case Nil
  show ?case by simp
next
  case (Cons b bs)
  then show ?case by (cases b) simp_all
qed

lemma anthropic_response_content:
  "resp_content (anthropic_response dumps bs) =
     Some (if block_texts bs = [] then '''' else last (block_texts bs))"
  using parse_blocks_content [of dumps bs "[]" "''''"]
  by (simp add: anthropic_response_def case_prod_beta)

text \<open>
  C10. In the Anthropic adapter, with more than one text-typed block in the response the
  returned text is the text of the last text-typed block alone; with no action-typed block
  the returned \<^verbatim>\<open>tool_calls\<close> is \<^verbatim>\<open>None\<close>; with no text-typed block the returned text
  is the empty string.
\<close>

theorem anthropic_last_text_block_wins:
  "(1 < length (block_texts blocks) \<longrightarrow>
      resp_content (anthropic_response dumps blocks) = Some (last (block_texts blocks))) \<and>
   (\<not> list_ex is_tool_use blocks \<longrightarrow>
      resp_tool_calls (anthropic_response dumps blocks) = None) \<and>
   (block_texts blocks = [] \<longrightarrow>
      resp_content (anthropic_response dumps blocks) = Some '''')"
proof (intro conjI impI)
  assume "1 < length (block_texts blocks)"
  then have "block_texts blocks \<noteq> []" by auto
  then show "resp_content (anthropic_response dumps blocks) = Some (last (block_texts blocks))"
    by (simp add: anthropic_response_content)
next
  assume "\<not> list_ex is_tool_use blocks"
  then have "fst (parse_blocks dumps blocks [] '''') = []"
    by (rule parse_blocks_no_tool_use)
  then show "resp_tool_calls (anthropic_response dumps blocks) = None"
    by (simp add: anthropic_response_def case_prod_beta)
next
  assume "block_texts blocks = []"
  then show "resp_content (anthropic_response dumps blocks) = Some ''''"
    by (simp add: anthropic_response_content)
qed

theorem anthropic_last_text_block_wins_witness:
  "1 < length (block_texts [TextBlock ''Let me check.'', OtherBlock, TextBlock ''Done.'']) \<and>
   resp_content (anthropic_response (\<lambda>v. ''{}'')
     [TextBlock ''Let me check.'', OtherBlock, TextBlock ''Done.'']) = Some ''Done.'' \<and>
   \<not> list_ex is_tool_use [TextBlock ''Let me check.'', OtherBlock, TextBlock ''Done.''] \<and>
   resp_tool_calls (anthropic_response (\<lambda>v. ''{}'')
     [TextBlock ''Let me check.'', OtherBlock, TextBlock ''Done.'']) = None \<and>
   block_texts [OtherBlock] = [] \<and>
   resp_content (anthropic_response (\<lambda>v. ''{}'') [OtherBlock]) = Some ''''"
  using anthropic_last_text_block_wins
          [where blocks = "[TextBlock ''Let me check.'', OtherBlock, TextBlock ''Done.'']"
             and dumps = "\<lambda>v. ''{}''"]
        anthropic_last_text_block_wins [where blocks = "[OtherBlock]" and dumps = "\<lambda>v. ''{}''"]
  by simp

section \<open>Tool responses\<close>

lemma email_execute_cases:
  "(\<exists>m. fst (email_execute env to subject body w) = error_response m) \<or>
   (\<exists>r. fst (email_execute env to subject body w) = success_response r)"
  by (auto simp: email_execute_def split: prod.splits sum.splits exn.splits)

text \<open>
  C8. Every response built by \<^verbatim>\<open>_success_response\<close> or \<^verbatim>\<open>_error_response\<close>, and so
  every response of \<^verbatim>\<open>EmailTool.execute\<close> on any of its branches, has a mapping as
  result and no error when it reports success, and an error string and no result when it
  reports failure.
\<close>

theorem tool_response_result_xor_error:
  "outcome_exclusive (success_response result) \<and>
   outcome_exclusive (error_response error) \<and>
   outcome_exclusive (fst (email_execute env to subject body w))"
  using email_execute_cases [of env to subject body w]
  by (auto simp: outcome_exclusive_success outcome_exclusive_error)

theorem tool_response_result_xor_error_witness:
  "outcome_exclusive (success_response [(''message_id'', JStr ''m1'')]) \<and>
   outcome_exclusive (error_response ''Gmail API error: 403'') \<and>
   outcome_exclusive
     (fst (email_execute
        \<lparr>google_calendar_email = ''team@example.com'',
         gmail_send = (\<lambda>to subject body w. (Inl (HttpError ''403''), w))\<rparr>
        (JStr ''a@b.com'') (JStr ''Hello'') JNull (0::nat))) \<and>
   fst (email_execute
        \<lparr>google_calendar_email = ''team@example.com'',
         gmail_send = (\<lambda>to subject body w. (Inl (HttpError ''403''), w))\<rparr>
        (JStr ''a@b.com'') (JStr ''Hello'') JNull (0::nat))
     = error_response ''Missing required parameters: body''"
  using tool_response_result_xor_error
          [where result = "[(''message_id'', JStr ''m1'')]" and error = "''Gmail API error: 403''"
             and env = "\<lparr>google_calendar_email = ''team@example.com'',
                          gmail_send = (\<lambda>to subject body w. (Inl (HttpError ''403''), w))\<rparr>"
             and to = "JStr ''a@b.com''" and subject = "JStr ''Hello''" and body = JNull
             and w = "0::nat"]
  by (simp add: email_execute_def validate_params_def)

section \<open>Context Assembler\<close>

lemma accepted_candidates_subseq: "subseq (accepted_candidates cs seen) cs"
  by (induction cs arbitrary: seen) auto

lemma accepted_candidates_fresh:
  "b \<in> set (accepted_candidates cs seen) \<Longrightarrow> base_id_of (chunk_id b) \<notin> seen"
proof (induction cs arbitrary: seen)
  case Nil
  then show ?case by simp
next
  case (Cons c cs)
  show ?case
  proof (cases "base_id_of (chunk_id c) \<in> seen")
    case True
    with Cons show ?thesis by simp
  next
    case False
    with Cons.prems
    have "b = c \<or> b \<in> set (accepted_candidates cs (insert (base_id_of (chunk_id c)) seen))"
      by simp
    then show ?thesis
    proof
      assume "b = c"
      with False show ?thesis by simp
    next
      assume "b \<in> set (accepted_candidates cs (insert (base_id_of (chunk_id c)) seen))"
      then have "base_id_of (chunk_id b) \<notin> insert (base_id_of (chunk_id c)) seen"
        by (rule Cons.IH)
      then show ?thesis by simp
    qed
  qed
qed

lemma accepted_candidates_distinct:
  "distinct (map (\<lambda>b. base_id_of (chunk_id b)) (accepted_candidates cs seen))"
proof (induction cs arbitrary: seen)
  case Nil
  show ?case by simp
next
  case (Cons c cs)
  show ?case
  proof (cases "base_id_of (chunk_id c) \<in> seen")
    case True
    with Cons show ?thesis by simp
  next
    case False
    have "base_id_of (chunk_id c) \<notin>
            (\<lambda>b. base_id_of (chunk_id b)) `
              set (accepted_candidates cs (insert (base_id_of (chunk_id c)) seen))"
    proof
      assume "base_id_of (chunk_id c) \<in>
                (\<lambda>b. base_id_of (chunk_id b)) `
                  set (accepted_candidates cs (insert (base_id_of (chunk_id c)) seen))"
      then obtain b
        where b: "b \<in> set (accepted_candidates cs (insert (base_id_of (chunk_id c)) seen))"
          and eq: "base_id_of (chunk_id c) = base_id_of (chunk_id b)"
        by blast
      from b have "base_id_of (chunk_id b) \<notin> insert (base_id_of (chunk_id c)) seen"
        by (rule accepted_candidates_fresh)
      with eq show False by simp
    qed
    with False Cons show ?thesis by simp
  qed
qed

lemma dedup_loop_take:
  "length acc < 4 \<Longrightarrow>
   dedup_loop cs seen acc = take 4 (acc @ accepted_candidates cs seen)"
proof (induction cs arbitrary: seen acc)
  case Nil
  then show ?case by simp
next
  case (Cons c cs)
  show ?case
  proof (cases "base_id_of (chunk_id c) \<in> seen")
    case True
    with Cons show ?thesis by (simp add: Let_def)
  next
    case False
    show ?thesis
    proof (cases "length acc = 3")
      case True
      with False show ?thesis by (simp add: Let_def)
    next
      case short: False
      with Cons.prems have "length (acc @ [c]) < 4" by simp
      then have "dedup_loop cs (insert (base_id_of (chunk_id c)) seen) (acc @ [c]) =
                 take 4 ((acc @ [c]) @
                   accepted_candidates cs (insert (base_id_of (chunk_id c)) seen))"
        by (rule Cons.IH)
      with False short Cons.prems show ?thesis by (simp add: Let_def)
    qed
  qed
qed

lemma dedup_loop_spec: "dedup_loop cs {} [] = take 4 (accepted_candidates cs {})"
  using dedup_loop_take [of "[]" cs "{}"] by simp

lemma take_accepted_props:
  "length (take 4 (accepted_candidates cs {})) \<le> 4 \<and>
   distinct (map (\<lambda>b. base_id_of (chunk_id b)) (take 4 (accepted_candidates cs {}))) \<and>
   subseq (take 4 (accepted_candidates cs {})) cs"
proof (intro conjI)
  show "length (take 4 (accepted_candidates cs {})) \<le> 4" by simp
  show "distinct (map (\<lambda>b. base_id_of (chunk_id b)) (take 4 (accepted_candidates cs {})))"
    using accepted_candidates_distinct [of cs "{}"]
    by (simp add: take_map [symmetric] distinct_take)
  have "subseq (take 4 (accepted_candidates cs {})) (accepted_candidates cs {})"
    by (metis append_take_drop_id list_emb_prefix subseq_order.order_refl)
  then show "subseq (take 4 (accepted_candidates cs {})) cs"
    using accepted_candidates_subseq [of cs "{}"] by (rule subseq_order.order_trans)
qed

lemma get_rag_context_cases:
  "fst (get_rag_context env query top_k w) = [] \<or>
   (\<exists>emb w1 cs w2. embed_query env query w = (Inr emb, w1) \<and>
                    vector_search env emb top_k w1 = (Inr cs, w2) \<and>
                    fst (get_rag_context env query top_k w) = dedup_loop cs {} [])"
  by (auto simp: get_rag_context_def split: prod.splits sum.splits)

text \<open>
  C5. Whatever the retrieval returns, the Context Assembler returns at most 4 blocks, no
  two of them with the same base prefix. When the retrieval returns the candidates, the
  blocks returned are a subsequence of the candidates in their order: the first 4 of the
  candidates that the walk accepts, where the walk skips a candidate exactly when its base
  prefix was already accepted.
\<close>

theorem context_assembler_dedup_and_cap:
  "length (fst (get_rag_context env query top_k w)) \<le> 4 \<and>
   distinct (map (\<lambda>b. base_id_of (chunk_id b)) (fst (get_rag_context env query top_k w))) \<and>
   (\<forall>emb w1 candidates w2.
      embed_query env query w = (Inr emb, w1) \<and>
      vector_search env emb top_k w1 = (Inr candidates, w2) \<longrightarrow>
      fst (get_rag_context env query top_k w) = take 4 (accepted_candidates candidates {}) \<and>
      subseq (fst (get_rag_context env query top_k w)) candidates)"
proof -
  have general:
    "length (fst (get_rag_context env query top_k w)) \<le> 4 \<and>
     distinct (map (\<lambda>b. base_id_of (chunk_id b)) (fst (get_rag_context env query top_k w)))"
    using get_rag_context_cases [of env query top_k w]
  proof
    assume "fst (get_rag_context env query top_k w) = []"
    then show ?thesis by simp
  next
    assume "\<exists>emb w1 cs w2. embed_query env query w = (Inr emb, w1) \<and>
              vector_search env emb top_k w1 = (Inr cs, w2) \<and>
              fst (get_rag_context env query top_k w) = dedup_loop cs {} []"
    then obtain cs where "fst (get_rag_context env query top_k w) = dedup_loop cs {} []"
      by blast
    then show ?thesis
      using take_accepted_props [of cs] by (simp add: dedup_loop_spec)
  qed
  have retrieved:
    "fst (get_rag_context env query top_k w) = take 4 (accepted_candidates candidates {}) \<and>
     subseq (fst (get_rag_context env query top_k w)) candidates"
    if "embed_query env query w = (Inr emb, w1)"
      and "vector_search env emb top_k w1 = (Inr candidates, w2)"
    for emb w1 candidates w2
  proof -
    from that have "fst (get_rag_context env query top_k w) = dedup_loop candidates {} []"
      by (simp add: get_rag_context_def)
    then show ?thesis
      using take_accepted_props [of candidates] by (simp add: dedup_loop_spec)
  qed
  from general retrieved show ?thesis by blast
qed

theorem context_assembler_dedup_and_cap_witness:
  "embed_query demo_env ''What is your return policy?'' 0 = (Inr (), 0) \<and>
   vector_search demo_env () 6 0 = (Inr demo_candidates, 0) \<and>
   map chunk_id (fst (get_rag_context demo_env ''What is your return policy?'' 6 0)) =
     [''returns#0'', ''shipping'', ''hours#2'', ''contact''] \<and>
   fst (get_rag_context demo_env ''What is your return policy?'' 6 0) =
     take 4 (accepted_candidates demo_candidates {}) \<and>
   subseq (fst (get_rag_context demo_env ''What is your return policy?'' 6 0)) demo_candidates"
proof -
  have retrieval:
    "embed_query demo_env ''What is your return policy?'' 0 = (Inr (), 0) \<and>
     vector_search demo_env () 6 0 = (Inr demo_candidates, 0)"
    by (simp add: demo_env_def)
  have value_of:
    "map chunk_id (fst (get_rag_context demo_env ''What is your return policy?'' 6 0)) =
       [''returns#0'', ''shipping'', ''hours#2'', ''contact'']"
    by (simp add: get_rag_context_def demo_env_def demo_candidates_def demo_block_def
        base_id_of_def Let_def)
  from retrieval value_of
    context_assembler_dedup_and_cap
      [where env = demo_env and query = "''What is your return policy?''" and top_k = 6
         and w = 0]
  show ?thesis by blast
qed

section \<open>Citation Extractor\<close>

lemma first_occurrences_set: "set (first_occurrences xs) = set xs"
  by (induction xs rule: first_occurrences.induct) auto

lemma first_occurrences_distinct: "distinct (first_occurrences xs)"
  by (induction xs rule: first_occurrences.induct) (auto simp: first_occurrences_set)

lemma unique_loop_spec:
  "unique_loop xs acc = acc @ first_occurrences (filter (\<lambda>x. x \<notin> set acc) xs)"
proof (induction xs arbitrary: acc)
  case Nil
  show ?case by simp
next
  case (Cons x xs)
  show ?case
  proof (cases "x \<in> set acc")
    case True
    with Cons show ?thesis by simp
  next
    case False
    have "filter (\<lambda>y. y \<notin> set (acc @ [x])) xs =
          filter (\<lambda>y. y \<noteq> x) (filter (\<lambda>y. y \<notin> set acc) xs)"
      by (induction xs) auto
    with False Cons [of "acc @ [x]"] show ?thesis by simp
  qed
qed

lemma extract_citations_spec:
  "extract_citations t blocks =
     first_occurrences (filter (\<lambda>tok. tok \<in> chunk_id ` set blocks) (find_citations t))"
  by (simp add: extract_citations_def unique_loop_spec)

text \<open>
  C6. The Citation Extractor returns the bracket-delimited tokens of the text that are the
  \<^verbatim>\<open>chunk_id\<close> of a supplied block, without repetitions, each at the place of its first
  occurrence; any other token is left out. The result has no duplicates and holds only
  \<^verbatim>\<open>chunk_id\<close>s of the supplied blocks. The function is total: no text and no list of
  blocks makes it fail.
\<close>

theorem citations_valid_unique_in_order:
  "extract_citations t blocks =
     first_occurrences (filter (\<lambda>tok. tok \<in> chunk_id ` set blocks) (find_citations t)) \<and>
   distinct (extract_citations t blocks) \<and>
   set (extract_citations t blocks) \<subseteq> chunk_id ` set blocks"
  by (auto simp: extract_citations_spec first_occurrences_distinct first_occurrences_set)

theorem citations_valid_unique_in_order_witness:
  "extract_citations ''See [a] and [zzz] and [b], again [a]. [] [x[y] ]z[ [unclosed''
     [demo_block ''b'', demo_block ''a''] = [''a'', ''b''] \<and>
   find_citations ''See [a] and [zzz] and [b], again [a]. [] [x[y] ]z[ [unclosed'' =
     [''a'', ''zzz'', ''b'', ''a'', ''x[y''] \<and>
   distinct (extract_citations ''See [a] and [zzz] and [b], again [a]. [] [x[y] ]z[ [unclosed''
     [demo_block ''b'', demo_block ''a''])"
  using citations_valid_unique_in_order
          [where t = "''See [a] and [zzz] and [b], again [a]. [] [x[y] ]z[ [unclosed''"
             and blocks = "[demo_block ''b'', demo_block ''a'']"]
  by (simp add: demo_block_def Let_def)

section \<open>Prompt Builder\<close>









section \<open>Agent Loop\<close>

lemma exec_tool_calls_calling_entered:
  "exec_tool_calls env tcs st w = (r, st', w') \<Longrightarrow> calling_entered st' = calling_entered st"
proof (induction tcs arbitrary: st w)
  case Nil
  then show ?case by simp
next
  case (Cons tc tcs)
  then show ?case
    by (auto simp: Let_def split: sum.splits json.splits prod.splits)
qed

text \<open>
  A proof rule for the loop. \<open>I\<close> is a property of the variables that holds before the
  loop, that an entry into CALLING keeps and that a turn's tool calls keep when none of
  them raises. \<open>Q\<close> is what is to be shown of the outcome; it has to follow from \<open>I\<close> at
  each of the four ways out of the loop: the bound is reached, the provider raises, a tool
  call raises, the provider answers without tool calls.
\<close>

lemma agent_loop_rule:
  assumes enter: "\<And>s. I s \<Longrightarrow> iteration s < m \<Longrightarrow>
            I (s\<lparr>iteration := iteration s + 1, calling_entered := Suc (calling_entered s)\<rparr>)"
    and tools: "\<And>tcs s v s' v'. I s \<Longrightarrow> exec_tool_calls env tcs s v = (None, s', v') \<Longrightarrow> I s'"
    and bound: "\<And>s. I s \<Longrightarrow> \<not> iteration s < m \<Longrightarrow> Q (Inr None) s"
    and provider_fault: "\<And>s e. I s \<Longrightarrow> Q (Inl e) s"
    and tool_fault: "\<And>tcs s v e s' v'. I s \<Longrightarrow>
            exec_tool_calls env tcs s v = (Some e, s', v') \<Longrightarrow> Q (Inl e) s'"
    and answer: "\<And>s v response v'. I s \<Longrightarrow>
            call_llm_with_tools env (messages s) v = (Inr response, v') \<Longrightarrow>
            resp_tool_calls response = None \<or> resp_tool_calls response = Some [] \<Longrightarrow>
            Q (Inr (resp_content response)) s"
    and start: "I st"
    and run: "agent_loop env m st w = (res, st', w')"
  shows "Q res st'"
  using enter tools bound provider_fault tool_fault answer start run
proof (induction env m st w rule: agent_loop.induct)
  case (1 env m st w)
  note enter = "1.prems"(1) and tools = "1.prems"(2) and bound = "1.prems"(3)
    and provider_fault = "1.prems"(4) and tool_fault = "1.prems"(5)
    and answer = "1.prems"(6) and start = "1.prems"(7) and run = "1.prems"(8)
  show ?case
  proof (cases "iteration st < m")
    case False
    with run have "res = Inr None" and "st' = st"
      by (simp_all add: agent_loop.simps)
    with bound [OF start False] show ?thesis by simp
  next
    case True
    define st1 where
      "st1 = st\<lparr>iteration := iteration st + 1, calling_entered := Suc (calling_entered st)\<rparr>"
    have I1: "I st1"
      unfolding st1_def using start True by (rule enter)
    obtain out w1 where call: "call_llm_with_tools env (messages st1) w = (out, w1)"
      by (cases "call_llm_with_tools env (messages st1) w")
    show ?thesis
    proof (cases out)
      case (Inl e)
      with run True call have "res = Inl e" and "st' = st1"
        by (simp_all add: agent_loop.simps st1_def)
      with provider_fault [OF I1, of e] show ?thesis by simp
    next
      case (Inr response)
      have text_answer: ?thesis
        if none: "resp_tool_calls response = None \<or> resp_tool_calls response = Some []"
      proof -
        from none run True call Inr
        have "res = Inr (resp_content response)" and "st' = st1"
          by (auto simp: agent_loop.simps st1_def)
        moreover from call Inr
        have "call_llm_with_tools env (messages st1) w = (Inr response, w1)" by simp
        from answer [OF I1 this none] have "Q (Inr (resp_content response)) st1" .
        ultimately show ?thesis by simp
      qed
      show ?thesis
      proof (cases "resp_tool_calls response")
        case None
        then show ?thesis by (simp add: text_answer)
      next
        case (Some tcs)
        show ?thesis
        proof (cases tcs)
          case Nil
          with Some show ?thesis by (simp add: text_answer)
        next
          case (Cons tc rest)
          obtain r2 st2 w2 where exec: "exec_tool_calls env (tc # rest) st1 w1 = (r2, st2, w2)"
            by (cases "exec_tool_calls env (tc # rest) st1 w1")
          show ?thesis
          proof (cases r2)
            case (Some e)
            with run True call Inr \<open>resp_tool_calls response = Some tcs\<close> Cons exec
            have "res = Inl e" and "st' = st2"
              by (simp_all add: agent_loop.simps st1_def del: exec_tool_calls.simps)
            moreover from exec Some
            have "exec_tool_calls env (tc # rest) st1 w1 = (Some e, st2, w2)" by simp
            from tool_fault [OF I1 this] have "Q (Inl e) st2" .
            ultimately show ?thesis by simp
          next
            case None
            with exec have "exec_tool_calls env (tc # rest) st1 w1 = (None, st2, w2)" by simp
            from tools [OF I1 this] have I2: "I st2" .
            from None run True call Inr \<open>resp_tool_calls response = Some tcs\<close> Cons exec
            have next_run: "agent_loop env m st2 w2 = (res, st', w')"
              by (simp add: agent_loop.simps [of env m st w] st1_def
                    del: exec_tool_calls.simps)
            show ?thesis
              using True st1_def call [symmetric] Inr \<open>resp_tool_calls response = Some tcs\<close>
                Cons exec [symmetric] None refl enter tools bound provider_fault tool_fault
                answer I2 next_run
              by (rule "1.IH")
          qed
        qed
      qed
    qed
  qed
qed

text \<open>The counter of the source and the number of provider invocations stay equal; the
  counter never passes the bound.\<close>

lemma agent_loop_counters:
  assumes run: "agent_loop env m st w = (res, st', w')"
    and start: "int (calling_entered st) = iteration st" "iteration st \<le> max 0 m"
  shows "int (calling_entered st') = iteration st' \<and> iteration st' \<le> max 0 m"
proof (rule agent_loop_rule
    [where I = "\<lambda>s. int (calling_entered s) = iteration s \<and> iteration s \<le> max 0 m"
       and Q = "\<lambda>r s. int (calling_entered s) = iteration s \<and> iteration s \<le> max 0 m",
     OF _ _ _ _ _ _ _ run])
  fix tcs s v s' v'
  assume "int (calling_entered s) = iteration s \<and> iteration s \<le> max 0 m"
    and "exec_tool_calls env tcs s v = (None, s', v')"
  then show "int (calling_entered s') = iteration s' \<and> iteration s' \<le> max 0 m"
    using exec_tool_calls_iteration [of env tcs s v None s' v']
      exec_tool_calls_calling_entered [of env tcs s v None s' v'] by simp
next
  fix tcs s v e s' v'
  assume "int (calling_entered s) = iteration s \<and> iteration s \<le> max 0 m"
    and "exec_tool_calls env tcs s v = (Some e, s', v')"
  then show "int (calling_entered s') = iteration s' \<and> iteration s' \<le> max 0 m"
    using exec_tool_calls_iteration [of env tcs s v "Some e" s' v']
      exec_tool_calls_calling_entered [of env tcs s v "Some e" s' v'] by simp
qed (use start in auto)

subsection \<open>Invocations and outcomes\<close>






lemma exec_tool_calls_tool_raises:
  assumes "json_loads env (fn_arguments (tc_function tc)) = Inr (JObj kwargs)"
    and "execute_tool env (fn_name (tc_function tc)) kwargs v = (Inl e, v1)"
  shows "exec_tool_calls env (tc # tcs) s v =
          (Some e,
           s\<lparr>tool_calls_made := tool_calls_made s @
                [\<lparr>inv_tool_name = fn_name (tc_function tc), inv_arguments = JObj kwargs,
                  inv_call_id = tc_id tc\<rparr>]\<rparr>, v1)"
  using assms by (simp add: Let_def)



subsection \<open>The two return statements\<close>

lemma or_else_nonempty: "d \<noteq> [] \<Longrightarrow> or_else fr d \<noteq> []"
  by (simp add: or_else_def split: option.splits)

lemma process_query_returns:
  assumes "loop_outcome env query chat_history top_k m w = (Inr fr, st, w2)"
  shows "process_query env query chat_history user_id top_k m w =
    (\<lparr>res_text = or_else fr ''I processed your request.'',
      res_tool_calls = tool_calls_made st,
      res_tool_results = tool_results st,
      res_citations = extract_citations (or_else fr '''') (fst (get_rag_context env query top_k w)),
      res_debug =
        \<lparr>dbg_rag_context_used = (length (fst (get_rag_context env query top_k w)) > 0),
         dbg_rag_chunk_ids = map chunk_id (fst (get_rag_context env query top_k w)),
         dbg_tools_called = map inv_tool_name (tool_calls_made st),
         dbg_iterations = iteration st,
         dbg_error = None\<rparr>\<rparr>, calling_entered st, w2)"
  using assms by (simp add: process_query_def loop_outcome_def split: prod.splits)

lemma process_query_excepts:
  assumes "loop_outcome env query chat_history top_k m w = (Inl e, st, w2)"
  shows "process_query env query chat_history user_id top_k m w =
    (\<lparr>res_text = ''I encountered an error processing your request: '' @ str_exn e,
      res_tool_calls = tool_calls_made st,
      res_tool_results = tool_results st,
      res_citations = [],
      res_debug =
        \<lparr>dbg_rag_context_used = False,
         dbg_rag_chunk_ids = [],
         dbg_tools_called = map inv_tool_name (tool_calls_made st),
         dbg_iterations = 0,
         dbg_error = Some (str_exn e)\<rparr>\<rparr>, calling_entered st, w2)"
  using assms by (simp add: process_query_def loop_outcome_def split: prod.splits)

lemma loop_outcome_counters:
  assumes "loop_outcome env query chat_history top_k m w = (res, st, w2)"
  shows "int (calling_entered st) = iteration st \<and> iteration st \<le> max 0 m"
proof -
  obtain rag_context w1 where "get_rag_context env query top_k w = (rag_context, w1)"
    by (cases "get_rag_context env query top_k w")
  with assms
  have "agent_loop env m (initial_state env query rag_context chat_history) w1 = (res, st, w2)"
    by (simp add: loop_outcome_def)
  then show ?thesis
    by (rule agent_loop_counters) (simp_all add: initial_state_def)
qed



subsection \<open>Concrete runs, evaluated\<close>

lemma demo_run:
  "process_query demo_env ''What is your return policy?'' None None 6 5 0 =
    (\<lparr>res_text = ''You can return items within 30 days. [returns#0]'',
      res_tool_calls = [], res_tool_results = [],
      res_citations = [''returns#0''],
      res_debug =
        \<lparr>dbg_rag_context_used = True,
         dbg_rag_chunk_ids = [''returns#0'', ''shipping'', ''hours#2'', ''contact''],
         dbg_tools_called = [], dbg_iterations = 1, dbg_error = None\<rparr>\<rparr>, Suc 0, Suc 0)"
  by (simp add: process_query_def get_rag_context_def demo_env_def demo_candidates_def
      demo_block_def base_id_of_def Let_def agent_loop.simps initial_state_def
      call_llm_with_tools_def call_openai_def or_else_def extract_citations_def)


lemma list_args_run:
  "process_query list_args_env ''Send it'' None None 6 5 0 =
    (\<lparr>res_text = ''I encountered an error processing your request: '' @
                  ''execute_tool() argument after ** must be a mapping, not list'',
      res_tool_calls =
        [\<lparr>inv_tool_name = ''send_email'', inv_arguments = JArr [], inv_call_id = ''call_1''\<rparr>],
      res_tool_results = [], res_citations = [],
      res_debug =
        \<lparr>dbg_rag_context_used = False, dbg_rag_chunk_ids = [],
         dbg_tools_called = [''send_email''], dbg_iterations = 0,
         dbg_error =
           Some ''execute_tool() argument after ** must be a mapping, not list''\<rparr>\<rparr>,
     Suc 0, Suc 0)"
  by (simp add: process_query_def get_rag_context_def list_args_env_def demo_env_def
      demo_candidates_def demo_block_def base_id_of_def Let_def agent_loop.simps
      initial_state_def call_llm_with_tools_def call_openai_def or_else_def
      extract_citations_def demo_tool_call_def demo_loads_def from_openai_tool_call_def
      success_response_def)

lemma second_call_fails_run:
  "process_query second_call_fails_env ''Send it'' None None 6 5 0 =
    (\<lparr>res_text = ''I encountered an error processing your request: Connection error.'',
      res_tool_calls =
        [\<lparr>inv_tool_name = ''send_email'', inv_arguments = JObj [], inv_call_id = ''call_1''\<rparr>],
      res_tool_results =
        [[(''call_id'', JStr ''call_1''), (''tool_name'', JStr ''send_email''),
          (''success'', JBool True), (''result'', JObj [(''message_id'', JStr ''m1'')]),
          (''error'', JNull)]],
      res_citations = [],
      res_debug =
        \<lparr>dbg_rag_context_used = False, dbg_rag_chunk_ids = [],
         dbg_tools_called = [''send_email''], dbg_iterations = 0,
         dbg_error = Some ''Connection error.''\<rparr>\<rparr>, Suc (Suc 0), Suc (Suc 0))"
  by (simp add: process_query_def get_rag_context_def second_call_fails_env_def demo_env_def
      demo_candidates_def demo_block_def base_id_of_def Let_def agent_loop.simps
      initial_state_def call_llm_with_tools_def call_openai_def or_else_def
      extract_citations_def demo_tool_call_def demo_loads_def from_openai_tool_call_def
      success_response_def)

lemma no_retrieval_run:
  "process_query no_retrieval_env ''What is your return policy?'' None None 6 5 0 =
    (\<lparr>res_text = ''You can return items within 30 days. [returns#0]'',
      res_tool_calls = [], res_tool_results = [],
      res_citations = [],
      res_debug =
        \<lparr>dbg_rag_context_used = False, dbg_rag_chunk_ids = [],
         dbg_tools_called = [], dbg_iterations = 1, dbg_error = None\<rparr>\<rparr>, Suc 0, Suc 0)"
  by (simp add: process_query_def get_rag_context_def no_retrieval_env_def demo_env_def
      Let_def agent_loop.simps initial_state_def call_llm_with_tools_def call_openai_def
      or_else_def extract_citations_def)






subsection \<open>Termination and the iteration bound\<close>




subsection \<open>Invocations and their outcomes in the result\<close>




subsection \<open>The reported number of iterations\<close>

text \<open>
  C3, as amended. In a run that returns without an error, \<^verbatim>\<open>debug.iterations\<close> is the
  number of times the CALLING state was entered, that is the number of invocations of the
  provider adapter. In a run that ends through the \<^verbatim>\<open>except\<close> clause,
  \<^verbatim>\<open>debug.iterations\<close> is 0, whatever the number of provider calls made.
\<close>

theorem iterations_reported:
  assumes "process_query env query chat_history user_id top_k max_iterations w =
             (result, entered, w')"
  shows "(dbg_error (res_debug result) = None \<longrightarrow>
            dbg_iterations (res_debug result) = int entered) \<and>
         (dbg_error (res_debug result) \<noteq> None \<longrightarrow> dbg_iterations (res_debug result) = 0)"
proof -
  obtain res st w2
    where outcome: "loop_outcome env query chat_history top_k max_iterations w = (res, st, w2)"
    by (cases "loop_outcome env query chat_history top_k max_iterations w")
  have counters: "int (calling_entered st) = iteration st"
    using loop_outcome_counters [OF outcome] by simp
  show ?thesis
  proof (cases res)
    case (Inl e)
    with outcome assms process_query_excepts [of env query chat_history top_k max_iterations
        w e st w2 user_id]
    show ?thesis by auto
  next
    case (Inr fr)
    with outcome assms counters
      process_query_returns [of env query chat_history top_k max_iterations w fr st w2 user_id]
    show ?thesis by auto
  qed
qed

theorem iterations_reported_witness:
  "dbg_error (res_debug (fst
     (process_query demo_env ''What is your return policy?'' None None 6 5 0))) = None \<and>
   dbg_iterations (res_debug (fst
     (process_query demo_env ''What is your return policy?'' None None 6 5 0))) =
     int (fst (snd (process_query demo_env ''What is your return policy?'' None None 6 5 0))) \<and>
   dbg_error (res_debug (fst
     (process_query list_args_env ''Send it'' None None 6 5 0))) \<noteq> None \<and>
   dbg_iterations (res_debug (fst
     (process_query list_args_env ''Send it'' None None 6 5 0))) = 0"
  using iterations_reported
          [where env = demo_env and query = "''What is your return policy?''"
             and chat_history = None and user_id = None and top_k = 6 and max_iterations = 5
             and w = 0, OF demo_run]
        iterations_reported
          [where env = list_args_env and query = "''Send it''"
             and chat_history = None and user_id = None and top_k = 6 and max_iterations = 5
             and w = 0, OF list_args_run]
  by (simp add: demo_run list_args_run)

text \<open>
  The first provider call returns a tool call, the tool is executed, the second provider
  call raises: CALLING was entered twice, one provider call completed, and the result
  reports 0 iterations.
\<close>

theorem iterations_reported_counterexample:
  "dbg_iterations (res_debug (fst
     (process_query second_call_fails_env ''Send it'' None None 6 5 0))) = 0 \<and>
   fst (snd (process_query second_call_fails_env ''Send it'' None None 6 5 0)) = 2 \<and>
   dbg_error (res_debug (fst
     (process_query second_call_fails_env ''Send it'' None None 6 5 0))) =
     Some ''Connection error.''"
  by (simp add: second_call_fails_run)

subsection \<open>Failures\<close>

lemma process_query_text_nonempty:
  "res_text (fst (process_query env query chat_history user_id top_k max_iterations w)) \<noteq> []"
proof -
  obtain res st w2
    where outcome: "loop_outcome env query chat_history top_k max_iterations w = (res, st, w2)"
    by (cases "loop_outcome env query chat_history top_k max_iterations w")
  show ?thesis
  proof (cases res)
    case (Inl e)
    with outcome process_query_excepts [of env query chat_history top_k max_iterations
        w e st w2 user_id]
    show ?thesis by simp
  next
    case (Inr fr)
    with outcome process_query_returns [of env query chat_history top_k max_iterations
        w fr st w2 user_id]
    show ?thesis by (simp add: or_else_nonempty)
  qed
qed

lemma process_query_context_used:
  "dbg_rag_context_used
     (res_debug (fst (process_query env query chat_history user_id top_k max_iterations w))) \<longrightarrow>
   fst (get_rag_context env query top_k w) \<noteq> []"
proof -
  obtain res st w2
    where outcome: "loop_outcome env query chat_history top_k max_iterations w = (res, st, w2)"
    by (cases "loop_outcome env query chat_history top_k max_iterations w")
  show ?thesis
  proof (cases res)
    case (Inl e)
    with outcome process_query_excepts [of env query chat_history top_k max_iterations
        w e st w2 user_id]
    show ?thesis by simp
  next
    case (Inr fr)
    with outcome process_query_returns [of env query chat_history top_k max_iterations
        w fr st w2 user_id]
    show ?thesis by simp
  qed
qed

text \<open>
  C4. When the embedding service or the vector search raises, the Context Assembler
  returns the empty list, and the run still returns a result: its
  \<^verbatim>\<open>debug.rag_context_used\<close> is false and its text is not empty.
\<close>

theorem retrieval_failure_degrades:
  assumes "retrieval_raises env query top_k w"
  shows "fst (get_rag_context env query top_k w) = [] \<and>
         \<not> dbg_rag_context_used (res_debug (fst
             (process_query env query chat_history user_id top_k max_iterations w))) \<and>
         res_text (fst (process_query env query chat_history user_id top_k max_iterations w))
           \<noteq> []"
proof -
  from assms have empty: "fst (get_rag_context env query top_k w) = []"
    by (auto simp: retrieval_raises_def get_rag_context_def split: prod.splits sum.splits)
  with process_query_context_used [of env query chat_history user_id top_k max_iterations w]
    process_query_text_nonempty [of env query chat_history user_id top_k max_iterations w]
  show ?thesis by simp
qed

theorem retrieval_failure_degrades_witness:
  "retrieval_raises no_retrieval_env ''What is your return policy?'' 6 0 \<and>
   fst (get_rag_context no_retrieval_env ''What is your return policy?'' 6 0) = [] \<and>
   \<not> dbg_rag_context_used (res_debug (fst
       (process_query no_retrieval_env ''What is your return policy?'' None None 6 5 0))) \<and>
   res_text (fst
       (process_query no_retrieval_env ''What is your return policy?'' None None 6 5 0)) =
     ''You can return items within 30 days. [returns#0]''"
proof -
  have raises: "retrieval_raises no_retrieval_env ''What is your return policy?'' 6 0"
    by (simp add: retrieval_raises_def no_retrieval_env_def demo_env_def)
  from raises
    retrieval_failure_degrades [OF raises, where chat_history = None and user_id = None
      and max_iterations = 5]
  show ?thesis by (simp add: no_retrieval_run)
qed

text \<open>
  C7. When an exception leaves the loop, \<^verbatim>\<open>process_query\<close> returns a result all the same:
  its text names the failure, its \<^verbatim>\<open>tool_calls\<close> and \<^verbatim>\<open>tool_results\<close> are the lists as they
  were when the exception was raised, its citations are empty and \<^verbatim>\<open>debug.error\<close> is the
  text of the exception.
\<close>

theorem loop_fault_gives_error_result:
  assumes "loop_outcome env query chat_history top_k max_iterations w = (Inl e, st, w2)"
  shows "res_text (fst (process_query env query chat_history user_id top_k max_iterations w)) =
           ''I encountered an error processing your request: '' @ str_exn e \<and>
         res_tool_calls (fst (process_query env query chat_history user_id top_k
           max_iterations w)) = tool_calls_made st \<and>
         res_tool_results (fst (process_query env query chat_history user_id top_k
           max_iterations w)) = tool_results st \<and>
         res_citations (fst (process_query env query chat_history user_id top_k
           max_iterations w)) = [] \<and>
         dbg_error (res_debug (fst (process_query env query chat_history user_id top_k
           max_iterations w))) = Some (str_exn e)"
  using process_query_excepts [OF assms, of user_id] by simp

lemma second_call_fails_outcome:
  "fst (loop_outcome second_call_fails_env ''Send it'' None 6 5 0) =
     Inl (OtherError ''Connection error.'') \<and>
   tool_calls_made (fst (snd (loop_outcome second_call_fails_env ''Send it'' None 6 5 0))) =
     [\<lparr>inv_tool_name = ''send_email'', inv_arguments = JObj [], inv_call_id = ''call_1''\<rparr>]"
  by (simp add: loop_outcome_def get_rag_context_def second_call_fails_env_def demo_env_def
      demo_candidates_def demo_block_def base_id_of_def Let_def agent_loop.simps
      initial_state_def call_llm_with_tools_def call_openai_def demo_tool_call_def
      demo_loads_def from_openai_tool_call_def success_response_def)

theorem loop_fault_gives_error_result_witness:
  "fst (loop_outcome second_call_fails_env ''Send it'' None 6 5 0) =
     Inl (OtherError ''Connection error.'') \<and>
   res_text (fst (process_query second_call_fails_env ''Send it'' None None 6 5 0)) =
     ''I encountered an error processing your request: Connection error.'' \<and>
   res_tool_calls (fst (process_query second_call_fails_env ''Send it'' None None 6 5 0)) =
     tool_calls_made (fst (snd (loop_outcome second_call_fails_env ''Send it'' None 6 5 0))) \<and>
   res_tool_calls (fst (process_query second_call_fails_env ''Send it'' None None 6 5 0)) =
     [\<lparr>inv_tool_name = ''send_email'', inv_arguments = JObj [], inv_call_id = ''call_1''\<rparr>] \<and>
   res_citations (fst (process_query second_call_fails_env ''Send it'' None None 6 5 0)) = [] \<and>
   dbg_error (res_debug (fst
     (process_query second_call_fails_env ''Send it'' None None 6 5 0))) =
     Some ''Connection error.''"
proof -
  have outcome:
    "loop_outcome second_call_fails_env ''Send it'' None 6 5 0 =
       (Inl (OtherError ''Connection error.''),
        fst (snd (loop_outcome second_call_fails_env ''Send it'' None 6 5 0)),
        snd (snd (loop_outcome second_call_fails_env ''Send it'' None 6 5 0)))"
    using second_call_fails_outcome
    by (metis prod.collapse)
  from loop_fault_gives_error_result [OF outcome, of None] second_call_fails_outcome
  show ?thesis by simp
qed

end
